theory Spec2Isabelle
  imports Main
begin

unbundle bit_operations_syntax

section \<open>The LEDC driver interface used by HelloWorld.c\<close>

text \<open>
  The program includes \<^verbatim>\<open>driver/ledc.h\<close>, \<^verbatim>\<open>esp_err.h\<close> and the FreeRTOS headers.
  Their enumerations are written as datatypes and integer synonyms; C's \<^verbatim>\<open>int\<close> is
  modelled by \<^typ>\<open>int\<close>: every loop variable of the program stays between \<open>-7\<close> and
  \<open>1030\<close>, far from the 32-bit limits.
\<close>

type_synonym gpio_num_t = int
type_synonym esp_err_t = int

datatype ledc_channel_t =
  LEDC_CHANNEL_0 | LEDC_CHANNEL_1 | LEDC_CHANNEL_2 | LEDC_CHANNEL_3
| LEDC_CHANNEL_4 | LEDC_CHANNEL_5 | LEDC_CHANNEL_6 | LEDC_CHANNEL_7

datatype ledc_mode_t = LEDC_HIGH_SPEED_MODE | LEDC_LOW_SPEED_MODE

datatype ledc_timer_t = LEDC_TIMER_0 | LEDC_TIMER_1 | LEDC_TIMER_2 | LEDC_TIMER_3

datatype ledc_clk_cfg_t = LEDC_AUTO_CLK | LEDC_USE_REF_TICK | LEDC_USE_APB_CLK | LEDC_USE_RTC8M_CLK

definition ESP_OK :: esp_err_t where
  "ESP_OK = 0"

definition GPIO_NUM_2 :: gpio_num_t where
  "GPIO_NUM_2 = 2"

definition GPIO_NUM_4 :: gpio_num_t where
  "GPIO_NUM_4 = 4"

definition GPIO_NUM_5 :: gpio_num_t where
  "GPIO_NUM_5 = 5"

definition LEDC_TIMER_10_BIT :: nat where
  "LEDC_TIMER_10_BIT = 10"

record ledc_timer_config_t =
  speed_mode :: ledc_mode_t
  timer_num :: ledc_timer_t
  duty_resolution :: nat
  freq_hz :: int
  clk_cfg :: ledc_clk_cfg_t

record ledc_channel_config_t =
  ch_speed_mode :: ledc_mode_t
  ch_channel :: ledc_channel_t
  timer_sel :: ledc_timer_t
  gpio_num :: gpio_num_t
  ch_duty :: int
  hpoint :: int

section \<open>Constants and the LED table\<close>

definition LED1_GPIO :: gpio_num_t where
  "LED1_GPIO = GPIO_NUM_2"

definition LED2_GPIO :: gpio_num_t where
  "LED2_GPIO = GPIO_NUM_4"

definition LED3_GPIO :: gpio_num_t where
  "LED3_GPIO = GPIO_NUM_5"

definition LED1_CH :: ledc_channel_t where
  "LED1_CH = LEDC_CHANNEL_0"

definition LED2_CH :: ledc_channel_t where
  "LED2_CH = LEDC_CHANNEL_1"

definition LED3_CH :: ledc_channel_t where
  "LED3_CH = LEDC_CHANNEL_2"

definition LED_MODE :: ledc_mode_t where
  "LED_MODE = LEDC_LOW_SPEED_MODE"

definition LED_TIMER :: ledc_timer_t where
  "LED_TIMER = LEDC_TIMER_0"

definition LED_DUTY_RES :: nat where
  "LED_DUTY_RES = LEDC_TIMER_10_BIT"

definition LED_FREQ_HZ :: int where
  "LED_FREQ_HZ = 5000"

definition STEP_DELAY :: nat where
  "STEP_DELAY = 10"

definition BLINK_DELAY :: nat where
  "BLINK_DELAY = 300"

record led_t =
  gpio :: gpio_num_t
  channel :: ledc_channel_t

definition leds :: "led_t list" where
  "leds = [\<lparr>gpio = LED1_GPIO, channel = LED1_CH\<rparr>,
           \<lparr>gpio = LED2_GPIO, channel = LED2_CH\<rparr>,
           \<lparr>gpio = LED3_GPIO, channel = LED3_CH\<rparr>]"

definition LED_COUNT :: int where
  "LED_COUNT = int (length leds)"

text \<open>The largest duty of the configured resolution: \<open>2 ^ 10 - 1\<close>.\<close>

definition max_duty :: int where
  "max_duty = 2 ^ LED_DUTY_RES - 1"

section \<open>The machine state\<close>

text \<open>
  Everything the program does is a call into the driver, the scheduler, the logger or the
  C library. Each such call is recorded in order. Two records are bookkeeping only:
  \<open>CallBreathe\<close> and \<open>CallSetBrightness\<close> mark the entry into \<^verbatim>\<open>led_breathe\<close> and
  \<^verbatim>\<open>led_set_brightness\<close> with their arguments.
\<close>

datatype log_msg =
  MsgStarted
| MsgInitialized int
| MsgKnightRider
| MsgBinaryCounter
| MsgRandom
| MsgBreathing gpio_num_t

datatype event =
  TimerConfig ledc_timer_config_t esp_err_t
| ChannelConfig ledc_channel_config_t esp_err_t
| SetDuty ledc_mode_t ledc_channel_t int
| UpdateDuty ledc_mode_t ledc_channel_t
| TaskDelay nat
| Log log_msg
| Rand nat
| CallBreathe int
| CallSetBrightness int int

datatype error = Abort esp_err_t | IndexOutOfBounds int

record world =
  duty_pending :: "ledc_channel_t \<Rightarrow> int"
  duty_active :: "ledc_channel_t \<Rightarrow> int"
  rand_state :: nat
  trace :: "event list"

definition emit :: "event \<Rightarrow> world \<Rightarrow> world" where
  "emit e s = s\<lparr>trace := trace s @ [e]\<rparr>"

section \<open>The environment\<close>

text \<open>
  Modelled from the spec: the driver functions \<^verbatim>\<open>ledc_set_duty\<close> and
  \<^verbatim>\<open>ledc_update_duty\<close> of ESP-IDF, which the repository calls and does not contain.
  Section 6 of the specification names them set-duty-value(channel, value) and
  commit-duty(channel): the first stores a value for the channel, the second makes the
  stored value the one the output waveform uses. The parameter of \<^verbatim>\<open>ledc_set_duty\<close> is
  a \<^verbatim>\<open>uint32_t\<close>, so the \<^verbatim>\<open>int\<close> argument is converted modulo \<open>2 ^ 32\<close>. The program
  ignores the value both functions return.
\<close>

definition ledc_set_duty :: "ledc_mode_t \<Rightarrow> ledc_channel_t \<Rightarrow> int \<Rightarrow> world \<Rightarrow> world" where
  "ledc_set_duty m c duty s =
     emit (SetDuty m c (duty mod 2 ^ 32))
       (s\<lparr>duty_pending := (duty_pending s)(c := duty mod 2 ^ 32)\<rparr>)"

definition ledc_update_duty :: "ledc_mode_t \<Rightarrow> ledc_channel_t \<Rightarrow> world \<Rightarrow> world" where
  "ledc_update_duty m c s =
     emit (UpdateDuty m c) (s\<lparr>duty_active := (duty_active s)(c := duty_pending s c)\<rparr>)"

text \<open>
  Modelled from the spec: \<^verbatim>\<open>ledc_timer_config\<close> and \<^verbatim>\<open>ledc_channel_config\<close> of
  ESP-IDF. Whether the hardware accepts a configuration is not decided by this repository;
  it is the parameter \<open>hw\<close>, the returned \<^verbatim>\<open>esp_err_t\<close>. An accepted channel
  configuration starts the channel at the configured duty.
\<close>

definition ledc_timer_config ::
  "(ledc_timer_config_t \<Rightarrow> esp_err_t) \<Rightarrow> ledc_timer_config_t \<Rightarrow> world \<Rightarrow> esp_err_t \<times> world" where
  "ledc_timer_config hw cfg s = (hw cfg, emit (TimerConfig cfg (hw cfg)) s)"

definition ledc_channel_config ::
  "(ledc_channel_config_t \<Rightarrow> esp_err_t) \<Rightarrow> ledc_channel_config_t \<Rightarrow> world \<Rightarrow> esp_err_t \<times> world" where
  "ledc_channel_config hw cfg s =
     (hw cfg,
      emit (ChannelConfig cfg (hw cfg))
        (if hw cfg = ESP_OK
         then s\<lparr>duty_pending := (duty_pending s)(ch_channel cfg := ch_duty cfg mod 2 ^ 32),
                duty_active := (duty_active s)(ch_channel cfg := ch_duty cfg mod 2 ^ 32)\<rparr>
         else s))"

text \<open>
  Modelled from the spec: the macro \<^verbatim>\<open>ESP_ERROR_CHECK\<close> of \<^verbatim>\<open>esp_err.h\<close>, which
  aborts the process when its argument is not \<^verbatim>\<open>ESP_OK\<close>. An abort leaves no state
  behind: the result is the error alone.
\<close>

definition ESP_ERROR_CHECK :: "esp_err_t \<times> world \<Rightarrow> error + world" where
  "ESP_ERROR_CHECK r = (if fst r = ESP_OK then Inr (snd r) else Inl (Abort (fst r)))"

text \<open>\<^verbatim>\<open>vTaskDelay(pdMS_TO_TICKS(ms))\<close>: the task sleeps; only the call is recorded.\<close>

definition vTaskDelay :: "nat \<Rightarrow> world \<Rightarrow> world" where
  "vTaskDelay ms s = emit (TaskDelay ms) s"

definition ESP_LOGI :: "log_msg \<Rightarrow> world \<Rightarrow> world" where
  "ESP_LOGI m s = emit (Log m) s"

text \<open>
  \<^verbatim>\<open>rand()\<close> and \<^verbatim>\<open>srand()\<close> of the C library. The generator is a parameter \<open>g\<close>:
  from the generator state it gives the number drawn and the next state. The C standard
  puts the number between 0 and \<^verbatim>\<open>RAND_MAX\<close>, hence a \<^typ>\<open>nat\<close>.
\<close>

definition rand :: "(nat \<Rightarrow> nat \<times> nat) \<Rightarrow> world \<Rightarrow> nat \<times> world" where
  "rand g s =
     (fst (g (rand_state s)),
      emit (Rand (fst (g (rand_state s)))) (s\<lparr>rand_state := snd (g (rand_state s))\<rparr>))"

definition srand :: "nat \<Rightarrow> world \<Rightarrow> world" where
  "srand seed s = s\<lparr>rand_state := seed\<rparr>"

section \<open>The program\<close>

subsection \<open>led_init\<close>

definition ledc_timer :: ledc_timer_config_t where
  "ledc_timer =
     \<lparr>speed_mode = LED_MODE, timer_num = LED_TIMER, duty_resolution = LED_DUTY_RES,
      freq_hz = LED_FREQ_HZ, clk_cfg = LEDC_AUTO_CLK\<rparr>"

definition ledc_channel :: "int \<Rightarrow> ledc_channel_config_t" where
  "ledc_channel i =
     \<lparr>ch_speed_mode = LED_MODE, ch_channel = channel (leds ! nat i), timer_sel = LED_TIMER,
      gpio_num = gpio (leds ! nat i), ch_duty = 0, hpoint = 0\<rparr>"

text \<open>
  The loop \<^verbatim>\<open>for (int i = 0; i < LED_COUNT; i++)\<close> of \<^verbatim>\<open>led_init\<close>, entered at \<open>i\<close>.
  It reads \<^verbatim>\<open>leds[i]\<close>; the loop starts at 0, so the index is never negative there.
\<close>

function led_init_channels ::
  "(ledc_channel_config_t \<Rightarrow> esp_err_t) \<Rightarrow> int \<Rightarrow> world \<Rightarrow> error + world" where
  "led_init_channels hwc i s =
     (if i < LED_COUNT then
        (if 0 \<le> i then
           (case ESP_ERROR_CHECK (ledc_channel_config hwc (ledc_channel i) s) of
              Inl e \<Rightarrow> Inl e
            | Inr s1 \<Rightarrow> led_init_channels hwc (i + 1) s1)
         else Inl (IndexOutOfBounds i))
      else Inr s)"
  by pat_completeness auto
termination
  by (relation "measure (\<lambda>(hwc, i, s). nat (LED_COUNT - i))") auto

declare led_init_channels.simps [simp del]

definition led_init ::
  "(ledc_timer_config_t \<Rightarrow> esp_err_t) \<Rightarrow> (ledc_channel_config_t \<Rightarrow> esp_err_t) \<Rightarrow>
   world \<Rightarrow> error + world" where
  "led_init hwt hwc s =
     (case ESP_ERROR_CHECK (ledc_timer_config hwt ledc_timer s) of
        Inl e \<Rightarrow> Inl e
      | Inr s1 \<Rightarrow>
          (case led_init_channels hwc 0 s1 of
             Inl e \<Rightarrow> Inl e
           | Inr s2 \<Rightarrow> Inr (ESP_LOGI (MsgInitialized LED_COUNT) s2)))"

subsection \<open>led_set_brightness\<close>

text \<open>Reading \<^verbatim>\<open>leds[led_index]\<close> outside the array is undefined in C; here it is an error.\<close>

definition led_set_brightness :: "int \<Rightarrow> int \<Rightarrow> world \<Rightarrow> error + world" where
  "led_set_brightness led_index duty s =
     (if 0 \<le> led_index \<and> led_index < LED_COUNT then
        Inr (ledc_update_duty LED_MODE (channel (leds ! nat led_index))
              (ledc_set_duty LED_MODE (channel (leds ! nat led_index)) duty
                (emit (CallSetBrightness led_index duty) s)))
      else Inl (IndexOutOfBounds led_index))"

subsection \<open>led_breathe\<close>

function led_breathe_up :: "int \<Rightarrow> int \<Rightarrow> world \<Rightarrow> error + world" where
  "led_breathe_up led_index duty s =
     (if duty \<le> 1023 then
        (case led_set_brightness led_index duty s of
           Inl e \<Rightarrow> Inl e
         | Inr s1 \<Rightarrow> led_breathe_up led_index (duty + 10) (vTaskDelay STEP_DELAY s1))
      else Inr s)"
  by pat_completeness auto
termination
  by (relation "measure (\<lambda>(i, duty, s). nat (1024 - duty))") auto

declare led_breathe_up.simps [simp del]

function led_breathe_down :: "int \<Rightarrow> int \<Rightarrow> world \<Rightarrow> error + world" where
  "led_breathe_down led_index duty s =
     (if duty \<ge> 0 then
        (case led_set_brightness led_index duty s of
           Inl e \<Rightarrow> Inl e
         | Inr s1 \<Rightarrow> led_breathe_down led_index (duty - 10) (vTaskDelay STEP_DELAY s1))
      else Inr s)"
  by pat_completeness auto
termination
  by (relation "measure (\<lambda>(i, duty, s). nat (duty + 1))") auto

declare led_breathe_down.simps [simp del]

definition led_breathe :: "int \<Rightarrow> world \<Rightarrow> error + world" where
  "led_breathe led_index s =
     (case led_breathe_up led_index 0 (emit (CallBreathe led_index) s) of
        Inl e \<Rightarrow> Inl e
      | Inr s1 \<Rightarrow> led_breathe_down led_index 1023 s1)"

subsection \<open>pattern_knight_rider\<close>

function knight_rider_right :: "int \<Rightarrow> world \<Rightarrow> error + world" where
  "knight_rider_right i s =
     (if i < LED_COUNT then
        (case led_breathe i s of
           Inl e \<Rightarrow> Inl e
         | Inr s1 \<Rightarrow> knight_rider_right (i + 1) s1)
      else Inr s)"
  by pat_completeness auto
termination
  by (relation "measure (\<lambda>(i, s). nat (LED_COUNT - i))") auto

declare knight_rider_right.simps [simp del]

function knight_rider_left :: "int \<Rightarrow> world \<Rightarrow> error + world" where
  "knight_rider_left i s =
     (if i > 0 then
        (case led_breathe i s of
           Inl e \<Rightarrow> Inl e
         | Inr s1 \<Rightarrow> knight_rider_left (i - 1) s1)
      else Inr s)"
  by pat_completeness auto
termination
  by (relation "measure (\<lambda>(i, s). nat i)") auto

declare knight_rider_left.simps [simp del]

definition pattern_knight_rider :: "world \<Rightarrow> error + world" where
  "pattern_knight_rider s =
     (case knight_rider_right 0 (ESP_LOGI MsgKnightRider s) of
        Inl e \<Rightarrow> Inl e
      | Inr s1 \<Rightarrow> knight_rider_left (LED_COUNT - 2) s1)"

subsection \<open>pattern_binary_counter\<close>

function binary_counter_leds :: "int \<Rightarrow> int \<Rightarrow> world \<Rightarrow> error + world" where
  "binary_counter_leds count i s =
     (if i < LED_COUNT then
        (case (if (drop_bit (nat i) count) AND 1 \<noteq> 0
               then led_breathe i s
               else led_set_brightness i 0 s) of
           Inl e \<Rightarrow> Inl e
         | Inr s1 \<Rightarrow> binary_counter_leds count (i + 1) s1)
      else Inr s)"
  by pat_completeness auto
termination
  by (relation "measure (\<lambda>(count, i, s). nat (LED_COUNT - i))") auto

declare binary_counter_leds.simps [simp del]

function binary_counter_counts :: "int \<Rightarrow> int \<Rightarrow> world \<Rightarrow> error + world" where
  "binary_counter_counts max_count count s =
     (if count < max_count then
        (case binary_counter_leds count 0 s of
           Inl e \<Rightarrow> Inl e
         | Inr s1 \<Rightarrow> binary_counter_counts max_count (count + 1) (vTaskDelay BLINK_DELAY s1))
      else Inr s)"
  by pat_completeness auto
termination
  by (relation "measure (\<lambda>(max_count, count, s). nat (max_count - count))") auto

declare binary_counter_counts.simps [simp del]

definition pattern_binary_counter :: "world \<Rightarrow> error + world" where
  "pattern_binary_counter s =
     binary_counter_counts (push_bit (nat LED_COUNT) 1) 0 (ESP_LOGI MsgBinaryCounter s)"

subsection \<open>pattern_random\<close>

function pattern_random_loop :: "(nat \<Rightarrow> nat \<times> nat) \<Rightarrow> int \<Rightarrow> world \<Rightarrow> error + world" where
  "pattern_random_loop g i s =
     (if i < 6 then
        (let led_index = int (fst (rand g s)) mod LED_COUNT;
             s1 = snd (rand g s)
         in if 0 \<le> led_index \<and> led_index < LED_COUNT then
              (case led_breathe led_index (ESP_LOGI (MsgBreathing (gpio (leds ! nat led_index))) s1) of
                 Inl e \<Rightarrow> Inl e
               | Inr s2 \<Rightarrow> pattern_random_loop g (i + 1) (vTaskDelay BLINK_DELAY s2))
            else Inl (IndexOutOfBounds led_index))
      else Inr s)"
  by pat_completeness auto
termination
  by (relation "measure (\<lambda>(g, i, s). nat (6 - i))") auto

declare pattern_random_loop.simps [simp del]

definition pattern_random :: "(nat \<Rightarrow> nat \<times> nat) \<Rightarrow> world \<Rightarrow> error + world" where
  "pattern_random g s = pattern_random_loop g 0 (ESP_LOGI MsgRandom s)"

subsection \<open>led_pattern_task and app_main\<close>

text \<open>One pass through the body of the \<^verbatim>\<open>while (1)\<close> loop.\<close>

definition led_pattern_cycle :: "(nat \<Rightarrow> nat \<times> nat) \<Rightarrow> world \<Rightarrow> error + world" where
  "led_pattern_cycle g s =
     (case pattern_knight_rider s of
        Inl e \<Rightarrow> Inl e
      | Inr s1 \<Rightarrow>
          (case pattern_binary_counter s1 of
             Inl e \<Rightarrow> Inl e
           | Inr s2 \<Rightarrow> pattern_random g s2))"

text \<open>
  The loop has no exit. \<open>led_pattern_task g n\<close> is the state after the first \<open>n\<close> passes
  of the loop, the only observation that exists of a task that never returns.
\<close>

fun led_pattern_task :: "(nat \<Rightarrow> nat \<times> nat) \<Rightarrow> nat \<Rightarrow> world \<Rightarrow> error + world" where
  "led_pattern_task g 0 s = Inr s"
| "led_pattern_task g (Suc n) s =
     (case led_pattern_cycle g s of
        Inl e \<Rightarrow> Inl e
      | Inr s1 \<Rightarrow> led_pattern_task g n s1)"

text \<open>
  \<open>app_main\<close> initialises the LEDs, seeds the generator with the value \<open>entropy\<close> that
  \<^verbatim>\<open>esp_random()\<close> returns, and creates the task, observed for \<open>n\<close> passes.
\<close>

definition app_main ::
  "(ledc_timer_config_t \<Rightarrow> esp_err_t) \<Rightarrow> (ledc_channel_config_t \<Rightarrow> esp_err_t) \<Rightarrow>
   nat \<Rightarrow> (nat \<Rightarrow> nat \<times> nat) \<Rightarrow> nat \<Rightarrow> world \<Rightarrow> error + world" where
  "app_main hwt hwc entropy g n s =
     (case led_init hwt hwc (ESP_LOGI MsgStarted s) of
        Inl e \<Rightarrow> Inl e
      | Inr s1 \<Rightarrow> led_pattern_task g n (srand entropy s1))"

section \<open>Observations of a run\<close>

text \<open>The records a call appended to the trace.\<close>

definition new_events :: "world \<Rightarrow> world \<Rightarrow> event list" where
  "new_events s s' = drop (length (trace s)) (trace s')"

text \<open>The duty values handed to \<^verbatim>\<open>ledc_set_duty\<close>, in order.\<close>

fun duties :: "event list \<Rightarrow> int list" where
  "duties [] = []"
| "duties (SetDuty m c d # es) = d # duties es"
| "duties (e # es) = duties es"

text \<open>The indices \<^verbatim>\<open>led_breathe\<close> was called with, in order.\<close>

fun breathe_calls :: "event list \<Rightarrow> int list" where
  "breathe_calls [] = []"
| "breathe_calls (CallBreathe i # es) = i # breathe_calls es"
| "breathe_calls (e # es) = breathe_calls es"

text \<open>The channels named in calls of \<^verbatim>\<open>ledc_set_duty\<close> and \<^verbatim>\<open>ledc_update_duty\<close>.\<close>

fun channels_touched :: "event list \<Rightarrow> ledc_channel_t list" where
  "channels_touched [] = []"
| "channels_touched (SetDuty m c d # es) = c # channels_touched es"
| "channels_touched (UpdateDuty m c # es) = c # channels_touched es"
| "channels_touched (e # es) = channels_touched es"

text \<open>A state with nothing configured and nothing recorded.\<close>

definition boot :: world where
  "boot = \<lparr>duty_pending = (\<lambda>c. 0), duty_active = (\<lambda>c. 0), rand_state = 1, trace = []\<rparr>"

section \<open>Closed forms of the runs\<close>

text \<open>
  The loops of the program run a fixed number of times. The definitions of this section
  name the state each loop returns and the records it appends; the lemmas below prove that
  the program computes exactly these.
\<close>

definition breathe_step :: "int \<Rightarrow> world \<Rightarrow> int \<Rightarrow> world" where
  "breathe_step i s d =
     vTaskDelay STEP_DELAY
       (ledc_update_duty LED_MODE (channel (leds ! nat i))
         (ledc_set_duty LED_MODE (channel (leds ! nat i)) d
           (emit (CallSetBrightness i d) s)))"

definition up_duties :: "int \<Rightarrow> int list" where
  "up_duties d = map (\<lambda>k. d + 10 * int k) [0..<nat ((1033 - d) div 10)]"

definition down_duties :: "int \<Rightarrow> int list" where
  "down_duties d = map (\<lambda>k. d - 10 * int k) [0..<nat ((d + 10) div 10)]"

definition breathe_duties :: "int list" where
  "breathe_duties = up_duties 0 @ down_duties 1023"

definition breathe_result :: "int \<Rightarrow> world \<Rightarrow> world" where
  "breathe_result i s = foldl (breathe_step i) (emit (CallBreathe i) s) breathe_duties"

definition step_events :: "int \<Rightarrow> int \<Rightarrow> event list" where
  "step_events i d =
     [CallSetBrightness i d,
      SetDuty LED_MODE (channel (leds ! nat i)) (d mod 2 ^ 32),
      UpdateDuty LED_MODE (channel (leds ! nat i)),
      TaskDelay STEP_DELAY]"

definition breathe_events :: "int \<Rightarrow> event list" where
  "breathe_events i = CallBreathe i # concat (map (step_events i) breathe_duties)"

definition set_result :: "int \<Rightarrow> int \<Rightarrow> world \<Rightarrow> world" where
  "set_result i d s =
     ledc_update_duty LED_MODE (channel (leds ! nat i))
       (ledc_set_duty LED_MODE (channel (leds ! nat i)) d
         (emit (CallSetBrightness i d) s))"

definition set_events :: "int \<Rightarrow> int \<Rightarrow> event list" where
  "set_events i d =
     [CallSetBrightness i d,
      SetDuty LED_MODE (channel (leds ! nat i)) (d mod 2 ^ 32),
      UpdateDuty LED_MODE (channel (leds ! nat i))]"

definition knight_result :: "world \<Rightarrow> world" where
  "knight_result s =
     breathe_result 1 (breathe_result 2 (breathe_result 1 (breathe_result 0
       (ESP_LOGI MsgKnightRider s))))"

definition led_action :: "int \<Rightarrow> world \<Rightarrow> int \<Rightarrow> world" where
  "led_action count s i =
     (if (drop_bit (nat i) count) AND 1 \<noteq> 0 then breathe_result i s else set_result i 0 s)"

definition led_action_events :: "int \<Rightarrow> int \<Rightarrow> event list" where
  "led_action_events count i =
     (if (drop_bit (nat i) count) AND 1 \<noteq> 0 then breathe_events i else set_events i 0)"

definition counter_pass :: "world \<Rightarrow> int \<Rightarrow> world" where
  "counter_pass s count = vTaskDelay BLINK_DELAY (foldl (led_action count) s [0, 1, 2])"

definition counter_pass_events :: "int \<Rightarrow> event list" where
  "counter_pass_events count =
     concat (map (led_action_events count) [0, 1, 2]) @ [TaskDelay BLINK_DELAY]"

definition counter_result :: "world \<Rightarrow> world" where
  "counter_result s = foldl counter_pass (ESP_LOGI MsgBinaryCounter s) [0, 1, 2, 3, 4, 5, 6, 7]"

definition random_index :: "(nat \<Rightarrow> nat \<times> nat) \<Rightarrow> nat \<Rightarrow> int" where
  "random_index g r = int (fst (g r)) mod LED_COUNT"

definition random_step :: "(nat \<Rightarrow> nat \<times> nat) \<Rightarrow> world \<Rightarrow> world" where
  "random_step g s =
     vTaskDelay BLINK_DELAY
       (breathe_result (random_index g (rand_state s))
         (ESP_LOGI (MsgBreathing (gpio (leds ! nat (random_index g (rand_state s)))))
           (snd (rand g s))))"

definition random_step_events :: "(nat \<Rightarrow> nat \<times> nat) \<Rightarrow> nat \<Rightarrow> event list" where
  "random_step_events g r =
     Rand (fst (g r)) # Log (MsgBreathing (gpio (leds ! nat (random_index g r)))) #
     breathe_events (random_index g r) @ [TaskDelay BLINK_DELAY]"

fun random_result :: "(nat \<Rightarrow> nat \<times> nat) \<Rightarrow> nat \<Rightarrow> world \<Rightarrow> world" where
  "random_result g 0 s = s"
| "random_result g (Suc n) s = random_result g n (random_step g s)"

fun random_events :: "(nat \<Rightarrow> nat \<times> nat) \<Rightarrow> nat \<Rightarrow> nat \<Rightarrow> event list" where
  "random_events g 0 r = []"
| "random_events g (Suc n) r = random_step_events g r @ random_events g n (snd (g r))"

fun random_indices :: "(nat \<Rightarrow> nat \<times> nat) \<Rightarrow> nat \<Rightarrow> nat \<Rightarrow> int list" where
  "random_indices g 0 r = []"
| "random_indices g (Suc n) r = random_index g r # random_indices g n (snd (g r))"

fun call_ok :: "event \<Rightarrow> bool" where
  "call_ok (SetDuty m c d) = (0 \<le> d \<and> d \<le> max_duty \<and> c \<in> set (map channel leds))"
| "call_ok (UpdateDuty m c) = (c \<in> set (map channel leds))"
| "call_ok (CallSetBrightness i d) = (0 \<le> i \<and> i < LED_COUNT \<and> 0 \<le> d \<and> d \<le> max_duty)"
| "call_ok (CallBreathe i) = (0 \<le> i \<and> i < LED_COUNT)"
| "call_ok e = True"

fun run_list :: "(world \<Rightarrow> error + world) list \<Rightarrow> world \<Rightarrow> error + world" where
  "run_list [] s = Inr s"
| "run_list (f # fs) s = (case f s of Inl e \<Rightarrow> Inl e | Inr s1 \<Rightarrow> run_list fs s1)"

definition cycle_result :: "(nat \<Rightarrow> nat \<times> nat) \<Rightarrow> world \<Rightarrow> world" where
  "cycle_result g s = random_result g 6 (ESP_LOGI MsgRandom (counter_result (knight_result s)))"

definition cycle_events :: "(nat \<Rightarrow> nat \<times> nat) \<Rightarrow> nat \<Rightarrow> event list" where
  "cycle_events g r =
     (Log MsgKnightRider #
        breathe_events 0 @ breathe_events 1 @ breathe_events 2 @ breathe_events 1) @
     (Log MsgBinaryCounter # concat (map counter_pass_events [0, 1, 2, 3, 4, 5, 6, 7])) @
     (Log MsgRandom # random_events g 6 r)"

definition channel_started :: "(ledc_channel_config_t \<Rightarrow> esp_err_t) \<Rightarrow> int \<Rightarrow> world \<Rightarrow> world" where
  "channel_started hwc i s = snd (ledc_channel_config hwc (ledc_channel i) s)"

definition init_result ::
  "(ledc_timer_config_t \<Rightarrow> esp_err_t) \<Rightarrow> (ledc_channel_config_t \<Rightarrow> esp_err_t) \<Rightarrow>
   world \<Rightarrow> world" where
  "init_result hwt hwc s =
     ESP_LOGI (MsgInitialized LED_COUNT)
       (channel_started hwc 2 (channel_started hwc 1 (channel_started hwc 0
         (snd (ledc_timer_config hwt ledc_timer s)))))"

definition init_error ::
  "(ledc_timer_config_t \<Rightarrow> esp_err_t) \<Rightarrow> (ledc_channel_config_t \<Rightarrow> esp_err_t) \<Rightarrow>
   esp_err_t" where
  "init_error hwt hwc =
     (if hwt ledc_timer \<noteq> ESP_OK then hwt ledc_timer
      else if hwc (ledc_channel 0) \<noteq> ESP_OK then hwc (ledc_channel 0)
      else if hwc (ledc_channel 1) \<noteq> ESP_OK then hwc (ledc_channel 1)
      else hwc (ledc_channel 2))"

text \<open>A linear congruential generator, as an example of a generator for \<open>rand\<close>.\<close>

definition lcg :: "nat \<Rightarrow> nat \<times> nat" where
  "lcg x = ((x * 1103515245 + 12345) mod 2147483648 div 65536,
            (x * 1103515245 + 12345) mod 2147483648)"

section \<open>The program computes the closed forms\<close>

lemma LED_COUNT_3: "LED_COUNT = 3"
  by (simp add: LED_COUNT_def leds_def)

lemma led_set_brightness_step:
  "0 \<le> i \<Longrightarrow> i < 3 \<Longrightarrow>
   (case led_set_brightness i d s of Inl e \<Rightarrow> Inl e | Inr s1 \<Rightarrow> f (vTaskDelay STEP_DELAY s1)) =
   f (breathe_step i s d)"
  by (simp add: led_set_brightness_def breathe_step_def LED_COUNT_3)

lemma led_set_brightness_Inr:
  "0 \<le> i \<Longrightarrow> i < 3 \<Longrightarrow>
   \<exists>s1. led_set_brightness i d s = Inr s1 \<and> vTaskDelay STEP_DELAY s1 = breathe_step i s d"
  by (simp add: led_set_brightness_def breathe_step_def LED_COUNT_3)

lemma up_duties_rec:
  "d \<le> 1023 \<Longrightarrow> up_duties d = d # up_duties (d + 10)"
proof -
  assume d: "d \<le> 1023"
  have n: "nat ((1033 - d) div 10) = Suc (nat ((1033 - (d + 10)) div 10))"
    using d by (simp add: Suc_nat_eq_nat_zadd1) 
  show ?thesis
    unfolding up_duties_def n
    by (simp add: upt_conv_Cons map_Suc_upt [symmetric] o_def algebra_simps del: upt_Suc)
qed

lemma up_duties_stop: "\<not> d \<le> 1023 \<Longrightarrow> up_duties d = []"
  by (simp add: up_duties_def)

lemma down_duties_rec:
  "0 \<le> d \<Longrightarrow> down_duties d = d # down_duties (d - 10)"
proof -
  assume d: "0 \<le> d"
  have n: "nat ((d + 10) div 10) = Suc (nat ((d - 10 + 10) div 10))"
    using d by (simp add: Suc_nat_eq_nat_zadd1) 
  show ?thesis
    unfolding down_duties_def n
    by (simp add: upt_conv_Cons map_Suc_upt [symmetric] o_def algebra_simps del: upt_Suc)
qed

lemma down_duties_stop: "\<not> 0 \<le> d \<Longrightarrow> down_duties d = []"
  by (simp add: down_duties_def)

lemma led_breathe_up_fold:
  "0 \<le> i \<Longrightarrow> i < 3 \<Longrightarrow> led_breathe_up i d s = Inr (foldl (breathe_step i) s (up_duties d))"
proof (induction i d s rule: led_breathe_up.induct)
  case (1 i d s)
  show ?case
  proof (cases "d \<le> 1023")
    case True
    have "led_breathe_up i d s = led_breathe_up i (d + 10) (breathe_step i s d)"
      using True 1(2,3) by (subst led_breathe_up.simps) (simp add: led_set_brightness_step)
    also have "\<dots> = Inr (foldl (breathe_step i) (breathe_step i s d) (up_duties (d + 10)))"
    proof -
      obtain s1 where s1: "led_set_brightness i d s = Inr s1"
        "vTaskDelay STEP_DELAY s1 = breathe_step i s d"
        using led_set_brightness_Inr [OF 1(2,3)] by blast
      show ?thesis using 1(1) [OF True s1(1) 1(2,3)] s1(2) by simp
    qed
    finally show ?thesis using True by (simp add: up_duties_rec)
  next
    case False
    then show ?thesis by (subst led_breathe_up.simps) (simp add: up_duties_stop)
  qed
qed

lemma led_breathe_down_fold:
  "0 \<le> i \<Longrightarrow> i < 3 \<Longrightarrow> led_breathe_down i d s = Inr (foldl (breathe_step i) s (down_duties d))"
proof (induction i d s rule: led_breathe_down.induct)
  case (1 i d s)
  show ?case
  proof (cases "0 \<le> d")
    case True
    obtain s1 where s1: "led_set_brightness i d s = Inr s1"
      "vTaskDelay STEP_DELAY s1 = breathe_step i s d"
      using led_set_brightness_Inr [OF 1(2,3)] by blast
    have "led_breathe_down i d s = led_breathe_down i (d - 10) (breathe_step i s d)"
      using True s1 by (subst led_breathe_down.simps) simp
    also have "\<dots> = Inr (foldl (breathe_step i) (breathe_step i s d) (down_duties (d - 10)))"
      using 1(1) [OF _ s1(1) 1(2,3)] True s1(2) by simp
    finally show ?thesis using True by (simp add: down_duties_rec)
  next
    case False
    then show ?thesis by (subst led_breathe_down.simps) (simp add: down_duties_stop)
  qed
qed

lemma led_breathe_Inr:
  "0 \<le> i \<Longrightarrow> i < 3 \<Longrightarrow> led_breathe i s = Inr (breathe_result i s)"
  by (simp add: led_breathe_def breathe_result_def breathe_duties_def
      led_breathe_up_fold led_breathe_down_fold)

lemma trace_breathe_step: "trace (breathe_step i s d) = trace s @ step_events i d"
  by (simp add: breathe_step_def step_events_def vTaskDelay_def ledc_update_duty_def
      ledc_set_duty_def emit_def)

lemma rand_state_breathe_step: "rand_state (breathe_step i s d) = rand_state s"
  by (simp add: breathe_step_def vTaskDelay_def ledc_update_duty_def ledc_set_duty_def emit_def)

lemma duty_active_breathe_step:
  "duty_active (breathe_step i s d) =
   (duty_active s)(channel (leds ! nat i) := d mod 2 ^ 32)"
  by (simp add: breathe_step_def vTaskDelay_def ledc_update_duty_def ledc_set_duty_def emit_def)

lemma trace_foldl_breathe_step:
  "trace (foldl (breathe_step i) s ds) = trace s @ concat (map (step_events i) ds)"
  by (induction ds arbitrary: s) (simp_all add: trace_breathe_step)

lemma rand_state_foldl_breathe_step:
  "rand_state (foldl (breathe_step i) s ds) = rand_state s"
  by (induction ds arbitrary: s) (simp_all add: rand_state_breathe_step)

lemma duty_active_foldl_breathe_step:
  "ds \<noteq> [] \<Longrightarrow>
   duty_active (foldl (breathe_step i) s ds) =
   (duty_active s)(channel (leds ! nat i) := last ds mod 2 ^ 32)"
proof (induction ds arbitrary: s)
  case Nil
  then show ?case by simp
next
  case (Cons d ds)
  show ?case
  proof (cases "ds = []")
    case True
    then show ?thesis by (simp add: duty_active_breathe_step)
  next
    case False
    then show ?thesis
      using Cons.IH [OF False, of "breathe_step i s d"]
      by (auto simp: duty_active_breathe_step fun_eq_iff)
  qed
qed

lemma up_duties_0: "up_duties 0 = map (\<lambda>k. 10 * int k) [0..<103]"
  by (simp add: up_duties_def)

lemma down_duties_1023: "down_duties 1023 = map (\<lambda>k. 1023 - 10 * int k) [0..<103]"
  by (simp add: down_duties_def)

lemma last_breathe_duties: "last breathe_duties = 3"
  by (simp add: breathe_duties_def down_duties_1023 last_map)

lemma last_up_duties: "last (up_duties 0) = 1020"
  by (simp add: up_duties_0 last_map)

lemma length_breathe_duties: "length breathe_duties = 206"
  by (simp add: breathe_duties_def down_duties_1023 up_duties_0)

lemma breathe_duties_range: "d \<in> set breathe_duties \<Longrightarrow> 0 \<le> d \<and> d \<le> 1023"
  by (auto simp: breathe_duties_def down_duties_1023 up_duties_0)

lemma trace_breathe_result: "trace (breathe_result i s) = trace s @ breathe_events i"
  by (simp add: breathe_result_def breathe_events_def trace_foldl_breathe_step emit_def)

lemma rand_state_breathe_result: "rand_state (breathe_result i s) = rand_state s"
  by (simp add: breathe_result_def rand_state_foldl_breathe_step emit_def)

lemma duty_active_breathe_result:
  "duty_active (breathe_result i s) = (duty_active s)(channel (leds ! nat i) := 3)"
proof -
  have "breathe_duties \<noteq> []"
    using length_breathe_duties by auto
  then show ?thesis
    by (simp add: breathe_result_def duty_active_foldl_breathe_step last_breathe_duties emit_def)
qed

lemma sorted_up: "sorted (up_duties 0 @ [1023])"
  unfolding up_duties_0
  by (auto simp: sorted_append sorted_map sorted_wrt_map intro!: sorted_wrt_mono_rel[of _ "(<)"] )

lemma duties_append: "duties (xs @ ys) = duties xs @ duties ys"
  by (induction xs rule: duties.induct) simp_all

lemma breathe_calls_append: "breathe_calls (xs @ ys) = breathe_calls xs @ breathe_calls ys"
  by (induction xs rule: breathe_calls.induct) simp_all

lemma channels_touched_append:
  "channels_touched (xs @ ys) = channels_touched xs @ channels_touched ys"
  by (induction xs rule: channels_touched.induct) simp_all

lemma new_events_append: "trace s' = trace s @ es \<Longrightarrow> new_events s s' = es"
  by (simp add: new_events_def)

lemma duties_steps: "duties (concat (map (step_events i) ds)) = map (\<lambda>d. d mod 2 ^ 32) ds"
  by (induction ds) (simp_all add: step_events_def duties_append)

lemma breathe_calls_steps: "breathe_calls (concat (map (step_events i) ds)) = []"
  by (induction ds) (simp_all add: step_events_def breathe_calls_append)

lemma duties_breathe_events: "duties (breathe_events i) = breathe_duties"
proof -
  have "map (\<lambda>d. d mod 2 ^ 32) breathe_duties = breathe_duties"
  proof (rule map_idI)
    fix d :: int
    assume "d \<in> set breathe_duties"
    then have "0 \<le> d \<and> d \<le> 1023" by (rule breathe_duties_range)
    then show "d mod 2 ^ 32 = d" by simp
  qed
  then show ?thesis
    by (simp add: breathe_events_def duties_steps)
qed

lemma breathe_calls_breathe_events: "breathe_calls (breathe_events i) = [i]"
  by (simp add: breathe_events_def breathe_calls_steps)

lemma max_duty_1023: "max_duty = 1023"
  by (simp add: max_duty_def LED_DUTY_RES_def LEDC_TIMER_10_BIT_def)

lemma take_breathe_duties: "take 104 breathe_duties = up_duties 0 @ [1023]"
  by (simp add: breathe_duties_def up_duties_0 down_duties_1023 upt_conv_Cons del: upt_Suc)

lemma drop_breathe_duties: "drop 103 breathe_duties = down_duties 1023"
  by (simp add: breathe_duties_def up_duties_0)

lemma sorted_down: "sorted (rev (down_duties 1023))"
  unfolding down_duties_1023
  by (auto simp: sorted_wrt_rev sorted_wrt_map  intro!: sorted_wrt_mono_rel[of _ "(<)"] )

lemma Max_breathe_duties: "Max (set breathe_duties) = 1023"
proof (rule Max_eqI)
  show "finite (set breathe_duties)" by simp
  show "\<And>y. y \<in> set breathe_duties \<Longrightarrow> y \<le> 1023"
    using breathe_duties_range by blast
  have "1023 \<in> set (take 104 breathe_duties)"
    by (simp add: take_breathe_duties)
  then show "1023 \<in> set breathe_duties"
    by (rule in_set_takeD)
qed

lemma led_set_brightness_eq:
  "0 \<le> i \<Longrightarrow> i < 3 \<Longrightarrow> led_set_brightness i d s = Inr (set_result i d s)"
  by (simp add: led_set_brightness_def set_result_def LED_COUNT_3)

lemma pattern_knight_rider_Inr: "pattern_knight_rider s = Inr (knight_result s)"
  by (simp add: pattern_knight_rider_def knight_result_def LED_COUNT_3 led_breathe_Inr
      knight_rider_right.simps [of 0] knight_rider_right.simps [of 1]
      knight_rider_right.simps [of 2] knight_rider_right.simps [of 3]
      knight_rider_left.simps [of 1] knight_rider_left.simps [of 0])

lemma binary_counter_leds_Inr:
  "binary_counter_leds count 0 s = Inr (foldl (led_action count) s [0, 1, 2])"
  by (simp add: LED_COUNT_3 led_breathe_Inr led_set_brightness_eq led_action_def
      binary_counter_leds.simps [of _ 0] binary_counter_leds.simps [of _ 1]
      binary_counter_leds.simps [of _ 2] binary_counter_leds.simps [of _ 3])

lemma binary_counter_counts_step:
  "count < m \<Longrightarrow>
   binary_counter_counts m count s = binary_counter_counts m (count + 1) (counter_pass s count)"
  by (subst binary_counter_counts.simps) (simp add: binary_counter_leds_Inr counter_pass_def)

lemma pattern_binary_counter_Inr: "pattern_binary_counter s = Inr (counter_result s)"
proof -
  have "push_bit (nat LED_COUNT) (1::int) = 8"
    by (simp add: LED_COUNT_3)
  moreover have "binary_counter_counts 8 8 t = Inr t" for t
    by (subst binary_counter_counts.simps) simp
  ultimately show ?thesis
    by (simp add: pattern_binary_counter_def counter_result_def binary_counter_counts_step)
qed

lemma random_index_range: "0 \<le> random_index g r \<and> random_index g r < 3"
  by (simp add: random_index_def LED_COUNT_3)

lemma pattern_random_loop_step:
  "i < 6 \<Longrightarrow> pattern_random_loop g i s = pattern_random_loop g (i + 1) (random_step g s)"
  using random_index_range [of g "rand_state s"]
  by (subst pattern_random_loop.simps)
    (simp add: Let_def random_step_def led_breathe_Inr LED_COUNT_3 rand_def
      random_index_def)

lemma pattern_random_Inr:
  "pattern_random g s = Inr (random_result g 6 (ESP_LOGI MsgRandom s))"
proof -
  have "pattern_random_loop g 6 t = Inr t" for t
    by (subst pattern_random_loop.simps) simp
  then show ?thesis
    by (simp add: pattern_random_def pattern_random_loop_step eval_nat_numeral)
qed

lemma trace_set_result: "trace (set_result i d s) = trace s @ set_events i d"
  by (simp add: set_result_def set_events_def ledc_update_duty_def ledc_set_duty_def emit_def)

lemma rand_state_set_result: "rand_state (set_result i d s) = rand_state s"
  by (simp add: set_result_def ledc_update_duty_def ledc_set_duty_def emit_def)

lemma trace_ESP_LOGI: "trace (ESP_LOGI m s) = trace s @ [Log m]"
  by (simp add: ESP_LOGI_def emit_def)

lemma rand_state_ESP_LOGI: "rand_state (ESP_LOGI m s) = rand_state s"
  by (simp add: ESP_LOGI_def emit_def)

lemma trace_vTaskDelay: "trace (vTaskDelay n s) = trace s @ [TaskDelay n]"
  by (simp add: vTaskDelay_def emit_def)

lemma rand_state_vTaskDelay: "rand_state (vTaskDelay n s) = rand_state s"
  by (simp add: vTaskDelay_def emit_def)

lemma trace_knight_result:
  "trace (knight_result s) =
   trace s @ Log MsgKnightRider #
     breathe_events 0 @ breathe_events 1 @ breathe_events 2 @ breathe_events 1"
  by (simp add: knight_result_def trace_breathe_result trace_ESP_LOGI)

lemma rand_state_knight_result: "rand_state (knight_result s) = rand_state s"
  by (simp add: knight_result_def rand_state_breathe_result rand_state_ESP_LOGI)

lemma trace_led_action: "trace (led_action c s i) = trace s @ led_action_events c i"
  by (simp add: led_action_def led_action_events_def trace_breathe_result trace_set_result)

lemma rand_state_led_action: "rand_state (led_action c s i) = rand_state s"
  by (simp add: led_action_def rand_state_breathe_result rand_state_set_result)

lemma trace_counter_pass: "trace (counter_pass s c) = trace s @ counter_pass_events c"
  by (simp add: counter_pass_def counter_pass_events_def trace_vTaskDelay trace_led_action)

lemma rand_state_counter_pass: "rand_state (counter_pass s c) = rand_state s"
  by (simp add: counter_pass_def rand_state_vTaskDelay rand_state_led_action)

lemma trace_foldl_counter_pass:
  "trace (foldl counter_pass s cs) = trace s @ concat (map counter_pass_events cs)"
  by (induction cs arbitrary: s) (simp_all add: trace_counter_pass)

lemma rand_state_foldl_counter_pass: "rand_state (foldl counter_pass s cs) = rand_state s"
  by (induction cs arbitrary: s) (simp_all add: rand_state_counter_pass)

lemma trace_counter_result:
  "trace (counter_result s) =
   trace s @ Log MsgBinaryCounter # concat (map counter_pass_events [0, 1, 2, 3, 4, 5, 6, 7])"
  by (simp only: counter_result_def trace_foldl_counter_pass trace_ESP_LOGI append_assoc
      append_Cons append_Nil)

lemma rand_state_counter_result: "rand_state (counter_result s) = rand_state s"
  by (simp only: counter_result_def rand_state_foldl_counter_pass rand_state_ESP_LOGI)

lemma trace_random_step:
  "trace (random_step g s) = trace s @ random_step_events g (rand_state s)"
  by (simp add: random_step_def random_step_events_def trace_vTaskDelay trace_breathe_result
      trace_ESP_LOGI rand_def emit_def)

lemma rand_state_random_step: "rand_state (random_step g s) = snd (g (rand_state s))"
  by (simp add: random_step_def rand_state_vTaskDelay rand_state_breathe_result
      rand_state_ESP_LOGI rand_def emit_def)

lemma trace_random_result:
  "trace (random_result g n s) = trace s @ random_events g n (rand_state s)"
  by (induction n arbitrary: s) (simp_all add: trace_random_step rand_state_random_step)

lemma breathe_calls_random_events:
  "breathe_calls (random_events g n r) = random_indices g n r"
  by (induction n arbitrary: r)
    (simp_all add: random_step_events_def breathe_calls_append breathe_calls_breathe_events)

lemma length_random_indices: "length (random_indices g n r) = n"
  by (induction n arbitrary: r) simp_all

lemma random_indices_range: "list_all (\<lambda>i. 0 \<le> i \<and> i < LED_COUNT) (random_indices g n r)"
  by (induction n arbitrary: r) (simp_all add: random_index_range LED_COUNT_3)

lemma breathe_calls_set_events: "breathe_calls (set_events i d) = []"
  by (simp add: set_events_def)

lemma breathe_calls_counter:
  "breathe_calls (concat (map counter_pass_events [0, 1, 2, 3, 4, 5, 6, 7])) =
   [0, 1, 0, 1, 2, 0, 2, 1, 2, 0, 1, 2]"
  by (simp add: counter_pass_events_def led_action_events_def breathe_calls_append
      breathe_calls_breathe_events breathe_calls_set_events)

lemma upto_0_7: "[0..7::int] = [0, 1, 2, 3, 4, 5, 6, 7]"
  by (simp add: upto.simps)

lemma bit_test: "((drop_bit n (k::int)) AND 1 \<noteq> 0) = bit k n"
  by (simp add: and_one_eq bit_iff_odd_drop_bit odd_iff_mod_2_eq_one)

lemma led_pattern_cycle_Inr: "led_pattern_cycle g s = Inr (cycle_result g s)"
  by (simp add: led_pattern_cycle_def cycle_result_def pattern_knight_rider_Inr
      pattern_binary_counter_Inr pattern_random_Inr)

lemma trace_cycle_result:
  "trace (cycle_result g s) = trace s @ cycle_events g (rand_state s)"
  by (simp add: cycle_result_def cycle_events_def trace_random_result trace_ESP_LOGI
      rand_state_ESP_LOGI trace_counter_result rand_state_counter_result
      trace_knight_result rand_state_knight_result)

lemma leds_channel_mem: "0 \<le> i \<Longrightarrow> i < 3 \<Longrightarrow> channel (leds ! nat i) \<in> set (map channel leds)"
proof -
  assume "0 \<le> i" "i < 3"
  then have "nat i < length leds" by (simp add: leds_def)
  then show ?thesis by simp
qed

lemma call_ok_step_events:
  "0 \<le> i \<Longrightarrow> i < 3 \<Longrightarrow> 0 \<le> d \<Longrightarrow> d \<le> 1023 \<Longrightarrow> list_all call_ok (step_events i d)"
  using leds_channel_mem [of i]
  by (simp add: step_events_def max_duty_1023 LED_COUNT_3)

lemma call_ok_set_events:
  "0 \<le> i \<Longrightarrow> i < 3 \<Longrightarrow> list_all call_ok (set_events i 0)"
  using leds_channel_mem [of i]
  by (simp add: set_events_def max_duty_1023 LED_COUNT_3)

lemma call_ok_breathe_events:
  assumes "0 \<le> i" "i < 3"
  shows "list_all call_ok (breathe_events i)"
proof -
  have "list_all call_ok (step_events i d)" if "d \<in> set breathe_duties" for d
    using assms breathe_duties_range [OF that] by (simp add: call_ok_step_events)
  then show ?thesis
    using assms by (simp add: breathe_events_def list_all_iff LED_COUNT_3)
qed

lemma leds_channels_distinct:
  "0 \<le> i \<Longrightarrow> i < 3 \<Longrightarrow> 0 \<le> j \<Longrightarrow> j < 3 \<Longrightarrow> i \<noteq> j \<Longrightarrow>
   channel (leds ! nat i) \<noteq> channel (leds ! nat j)"
proof -
  assume "0 \<le> i" "i < 3" "0 \<le> j" "j < 3" "i \<noteq> j"
  then have "(i = 0 \<or> i = 1 \<or> i = 2) \<and> (j = 0 \<or> j = 1 \<or> j = 2) \<and> i \<noteq> j"
    by arith
  then show ?thesis
    by (auto simp: leds_def LED1_CH_def LED2_CH_def LED3_CH_def)
qed

lemma duty_active_set_result:
  "duty_active (set_result i d s) = (duty_active s)(channel (leds ! nat i) := d mod 2 ^ 32)"
  by (simp add: set_result_def ledc_update_duty_def ledc_set_duty_def emit_def)

lemma duty_pending_set_result:
  "duty_pending (set_result i d s) = (duty_pending s)(channel (leds ! nat i) := d mod 2 ^ 32)"
  by (simp add: set_result_def ledc_update_duty_def ledc_set_duty_def emit_def)

lemma duties_up_steps: "duties (concat (map (step_events i) (up_duties 0))) = up_duties 0"
proof -
  have "map (\<lambda>d. d mod 2 ^ 32) (up_duties 0) = up_duties 0"
  proof (rule map_idI)
    fix d :: int
    assume "d \<in> set (up_duties 0)"
    then have "d \<in> set breathe_duties" by (simp add: breathe_duties_def)
    then have "0 \<le> d \<and> d \<le> 1023" by (rule breathe_duties_range)
    then show "d mod 2 ^ 32 = d" by simp
  qed
  then show ?thesis by (simp add: duties_steps)
qed

lemma run_list_append:
  "run_list (fs @ gs) s = (case run_list fs s of Inl e \<Rightarrow> Inl e | Inr s1 \<Rightarrow> run_list gs s1)"
  by (induction fs arbitrary: s) (simp_all split: sum.splits)

lemma led_action_bit:
  "led_action count s i = (if bit count (nat i) then breathe_result i s else set_result i 0 s)"
  by (simp only: led_action_def bit_test)

lemma led_action_events_bit:
  "led_action_events count i = (if bit count (nat i) then breathe_events i else set_events i 0)"
  by (simp only: led_action_events_def bit_test)

lemma run_list_pass:
  "run_list (map (\<lambda>i. if bit count (nat i) then led_breathe i else led_set_brightness i 0)
      [0, 1, 2] @ [\<lambda>s. Inr (vTaskDelay BLINK_DELAY s)]) s = Inr (counter_pass s count)"
  by (simp add: led_action_bit led_breathe_Inr led_set_brightness_eq counter_pass_def)

lemma run_list_concat:
  "(\<And>c s. run_list (pass c) s = Inr (step s c)) \<Longrightarrow>
   run_list (concat (map pass cs)) s = Inr (foldl step s cs)"
  by (induction cs arbitrary: s) (simp_all add: run_list_append)

lemma duty_active_pass_5:
  "duty_active (foldl (led_action 5) s [0, 1, 2]) (channel (leds ! 1)) = 0"
  by (simp add: led_action_def duty_active_breathe_result duty_active_set_result leds_def
      LED1_CH_def LED2_CH_def LED3_CH_def)

lemma breathe_calls_pass_5:
  "breathe_calls (concat (map (led_action_events 5) [0, 1, 2])) = [0, 2]"
  by (simp add: led_action_events_def breathe_calls_append breathe_calls_breathe_events
      breathe_calls_set_events)

lemma trace_foldl_led_action:
  "trace (foldl (led_action c) s is) = trace s @ concat (map (led_action_events c) is)"
  by (induction "is" arbitrary: s) (simp_all add: trace_led_action)

lemma popcounts: "sum_list (map (\<lambda>c. length (filter (bit c) [0, 1, 2])) [0, 1, 2, 3, 4, 5, 6, 7 :: int]) = 12"
  by (simp add: bit_test [symmetric])

lemma breathe_calls_knight:
  "breathe_calls (Log MsgKnightRider #
     breathe_events 0 @ breathe_events 1 @ breathe_events 2 @ breathe_events 1) = [0, 1, 2, 1]"
  by (simp add: breathe_calls_append breathe_calls_breathe_events)

lemma breathe_calls_cycle_events:
  "breathe_calls (cycle_events g r) =
   [0, 1, 2, 1] @ [0, 1, 0, 1, 2, 0, 2, 1, 2, 0, 1, 2] @ random_indices g 6 r"
proof -
  have "breathe_calls (Log MsgBinaryCounter #
      concat (map counter_pass_events [0, 1, 2, 3, 4, 5, 6, 7])) =
      [0, 1, 0, 1, 2, 0, 2, 1, 2, 0, 1, 2]"
    by (simp only: breathe_calls.simps breathe_calls_counter)
  moreover have "breathe_calls (Log MsgRandom # random_events g 6 r) = random_indices g 6 r"
    by (simp only: breathe_calls.simps breathe_calls_random_events)
  ultimately show ?thesis
    by (simp only: cycle_events_def breathe_calls_append breathe_calls_knight)
qed

lemma new_events_trans:
  "trace s1 = trace s @ es \<Longrightarrow> trace s2 = trace s @ es @ fs \<Longrightarrow> new_events s1 s2 = fs"
  by (simp add: new_events_def)

lemma call_ok_led_action_events:
  "0 \<le> i \<Longrightarrow> i < 3 \<Longrightarrow> list_all call_ok (led_action_events c i)"
  by (simp add: led_action_events_def call_ok_breathe_events call_ok_set_events)

lemma call_ok_counter_pass_events: "list_all call_ok (counter_pass_events c)"
  by (simp add: counter_pass_events_def call_ok_led_action_events)

lemma call_ok_random_events: "list_all call_ok (random_events g n r)"
  by (induction n arbitrary: r)
    (simp_all add: random_step_events_def call_ok_breathe_events random_index_range)

lemma call_ok_cycle_events: "list_all call_ok (cycle_events g r)"
  by (simp add: cycle_events_def call_ok_breathe_events call_ok_counter_pass_events
      call_ok_random_events)

lemma led_pattern_task_ok:
  "\<exists>s' es. led_pattern_task g n s = Inr s' \<and> trace s' = trace s @ es \<and> list_all call_ok es"
proof (induction n arbitrary: s)
  case 0
  show ?case by simp
next
  case (Suc n)
  obtain s' es where rest: "led_pattern_task g n (cycle_result g s) = Inr s'"
    "trace s' = trace (cycle_result g s) @ es" "list_all call_ok es"
    using Suc.IH by blast
  have "led_pattern_task g (Suc n) s = Inr s'"
    using rest(1) by (simp add: led_pattern_cycle_Inr)
  moreover have "trace s' = trace s @ cycle_events g (rand_state s) @ es"
    using rest(2) by (simp add: trace_cycle_result)
  moreover have "list_all call_ok (cycle_events g (rand_state s) @ es)"
    using rest(3) by (simp add: call_ok_cycle_events)
  ultimately show ?case by blast
qed

lemma led_init_channels_cases:
  "led_init_channels hwc 0 s =
     (if hwc (ledc_channel 0) = ESP_OK \<and> hwc (ledc_channel 1) = ESP_OK \<and>
         hwc (ledc_channel 2) = ESP_OK
      then Inr (channel_started hwc 2 (channel_started hwc 1 (channel_started hwc 0 s)))
      else Inl (Abort (init_error (\<lambda>c. ESP_OK) hwc)))"
  by (simp add: led_init_channels.simps [of _ 0] led_init_channels.simps [of _ 1]
      led_init_channels.simps [of _ 2] led_init_channels.simps [of _ 3]
      LED_COUNT_3 ESP_ERROR_CHECK_def channel_started_def init_error_def
      ledc_channel_config_def)

lemma led_init_cases:
  "led_init hwt hwc s =
     (if hwt ledc_timer = ESP_OK \<and> hwc (ledc_channel 0) = ESP_OK \<and>
         hwc (ledc_channel 1) = ESP_OK \<and> hwc (ledc_channel 2) = ESP_OK
      then Inr (init_result hwt hwc s)
      else Inl (Abort (init_error hwt hwc)))"
  by (simp add: led_init_def led_init_channels_cases ESP_ERROR_CHECK_def init_result_def
      init_error_def ledc_timer_config_def)

lemma init_error_not_OK:
  "\<not> (hwt ledc_timer = ESP_OK \<and> hwc (ledc_channel 0) = ESP_OK \<and>
      hwc (ledc_channel 1) = ESP_OK \<and> hwc (ledc_channel 2) = ESP_OK) \<Longrightarrow>
   init_error hwt hwc \<noteq> ESP_OK"
  by (auto simp: init_error_def)

lemma trace_init_result:
  "hwt ledc_timer = ESP_OK \<Longrightarrow> hwc (ledc_channel 0) = ESP_OK \<Longrightarrow>
   hwc (ledc_channel 1) = ESP_OK \<Longrightarrow> hwc (ledc_channel 2) = ESP_OK \<Longrightarrow>
   trace (init_result hwt hwc s) =
   trace s @
     [TimerConfig ledc_timer ESP_OK,
      ChannelConfig (ledc_channel 0) ESP_OK,
      ChannelConfig (ledc_channel 1) ESP_OK,
      ChannelConfig (ledc_channel 2) ESP_OK,
      Log (MsgInitialized LED_COUNT)]"
  by (simp add: init_result_def channel_started_def ledc_channel_config_def
      ledc_timer_config_def ESP_LOGI_def emit_def)

lemma duty_init_result:
  "hwt ledc_timer = ESP_OK \<Longrightarrow> hwc (ledc_channel 0) = ESP_OK \<Longrightarrow>
   hwc (ledc_channel 1) = ESP_OK \<Longrightarrow> hwc (ledc_channel 2) = ESP_OK \<Longrightarrow>
   0 \<le> i \<Longrightarrow> i < 3 \<Longrightarrow>
   duty_active (init_result hwt hwc s) (channel (leds ! nat i)) = 0 \<and>
   duty_pending (init_result hwt hwc s) (channel (leds ! nat i)) = 0"
proof -
  assume ok: "hwt ledc_timer = ESP_OK" "hwc (ledc_channel 0) = ESP_OK"
    "hwc (ledc_channel 1) = ESP_OK" "hwc (ledc_channel 2) = ESP_OK"
  assume "0 \<le> i" "i < 3"
  then have "i = 0 \<or> i = 1 \<or> i = 2" by arith
  then show ?thesis
    using ok
    by (auto simp: init_result_def channel_started_def ledc_channel_config_def
        ledc_timer_config_def ESP_LOGI_def emit_def ledc_channel_def)
qed

section \<open>The breathing primitive\<close>

text \<open>
  C1. The specification says that after \<^verbatim>\<open>led_breathe(i)\<close> the duty of LED \<open>i\<close> is 0
  whatever it was before. The falling loop starts at 1023 and subtracts 10 while the duty
  is not negative, so the last value it writes is 3: for every LED index and every
  starting state the call returns, and the duty in force on the channel of that LED, which
  is also the last duty handed to the driver, is 3 and not 0.
\<close>

theorem led_breathe_final_duty:
  "0 \<le> i \<Longrightarrow> i < LED_COUNT \<Longrightarrow>
   \<exists>s'. led_breathe i s = Inr s' \<and>
        duty_active s' (channel (leds ! nat i)) = 3 \<and>
        last (duties (new_events s s')) = 3"
proof -
  assume i: "0 \<le> i" "i < LED_COUNT"
  have "led_breathe i s = Inr (breathe_result i s)"
    using i by (simp add: led_breathe_Inr LED_COUNT_3)
  moreover have "duty_active (breathe_result i s) (channel (leds ! nat i)) = 3"
    by (simp add: duty_active_breathe_result)
  moreover have "last (duties (new_events s (breathe_result i s))) = 3"
    by (simp add: new_events_append [OF trace_breathe_result] duties_breathe_events
        last_breathe_duties)
  ultimately show ?thesis by blast
qed

theorem led_breathe_final_duty_witness:
  "(0::int) \<le> 1 \<and> 1 < LED_COUNT \<and>
   (\<exists>s'. led_breathe 1 boot = Inr s' \<and> duty_active s' LED2_CH = 3 \<and>
         last (duties (new_events boot s')) = 3)"
  using led_breathe_final_duty [of 1 boot]
  by (simp add: LED_COUNT_3 leds_def)

text \<open>
  C2. For every LED index and every starting state, the duties \<^verbatim>\<open>led_breathe\<close> hands
  to the driver first never decrease, up to and including the 104th write, and from that
  write on never increase; the largest of them is the maximum duty 1023; and there are
  206 of them (103 by the rising loop, 103 by the falling loop) on every call.
\<close>

theorem led_breathe_duty_profile:
  "0 \<le> i \<Longrightarrow> i < LED_COUNT \<Longrightarrow>
   \<exists>s'. led_breathe i s = Inr s' \<and>
        sorted (take 104 (duties (new_events s s'))) \<and>
        sorted (rev (drop 103 (duties (new_events s s')))) \<and>
        Max (set (duties (new_events s s'))) = max_duty \<and>
        max_duty = 1023 \<and>
        length (duties (new_events s s')) = 103 + 103"
proof -
  assume i: "0 \<le> i" "i < LED_COUNT"
  have run: "led_breathe i s = Inr (breathe_result i s)"
    using i by (simp add: led_breathe_Inr LED_COUNT_3)
  have ds: "duties (new_events s (breathe_result i s)) = breathe_duties"
    by (simp add: new_events_append [OF trace_breathe_result] duties_breathe_events)
  have "sorted (take 104 breathe_duties)"
    by (simp only: take_breathe_duties sorted_up)
  moreover have "sorted (rev (drop 103 breathe_duties))"
    by (simp only: drop_breathe_duties sorted_down)
  ultimately show ?thesis
    using run ds by (simp add: Max_breathe_duties max_duty_1023 length_breathe_duties)
qed

theorem led_breathe_duty_profile_witness:
  "(0::int) \<le> 2 \<and> 2 < LED_COUNT \<and>
   (\<exists>s'. led_breathe 2 boot = Inr s' \<and>
         sorted (take 104 (duties (new_events boot s'))) \<and>
         sorted (rev (drop 103 (duties (new_events boot s')))) \<and>
         Max (set (duties (new_events boot s'))) = 1023 \<and>
         length (duties (new_events boot s')) = 206)"
  using led_breathe_duty_profile [of 2 boot]
  by (auto simp: LED_COUNT_3)

text \<open>
  C3. The specification says that the rising loop ends on the maximum duty 1023. The loop
  starts at 0 and adds 10 while the duty is at most 1023, so it writes the multiples of 10
  from 0 to 1020: for every LED index and every starting state the rising loop returns,
  the last duty it hands to the driver is 1020, three below the maximum, and that is the
  duty in force when the loop ends.
\<close>

theorem led_breathe_up_last_duty:
  "0 \<le> i \<Longrightarrow> i < LED_COUNT \<Longrightarrow>
   \<exists>s'. led_breathe_up i 0 s = Inr s' \<and>
        duties (new_events s s') = map (\<lambda>k. 10 * int k) [0..<103] \<and>
        last (duties (new_events s s')) = 1020 \<and>
        duty_active s' (channel (leds ! nat i)) = 1020 \<and>
        max_duty = 1023"
proof -
  assume i: "0 \<le> i" "i < LED_COUNT"
  let ?s' = "foldl (breathe_step i) s (up_duties 0)"
  have run: "led_breathe_up i 0 s = Inr ?s'"
    using i by (simp add: led_breathe_up_fold LED_COUNT_3)
  have ds: "duties (new_events s ?s') = up_duties 0"
    by (simp add: new_events_append [OF trace_foldl_breathe_step] duties_up_steps)
  have ne: "up_duties 0 \<noteq> []"
    by (simp add: up_duties_0)
  have "duty_active ?s' (channel (leds ! nat i)) = 1020"
    by (simp add: duty_active_foldl_breathe_step [OF ne] last_up_duties)
  then show ?thesis
    using run ds by (simp add: last_up_duties max_duty_1023 up_duties_0 [symmetric])
qed

theorem led_breathe_up_last_duty_witness:
  "(0::int) \<le> 0 \<and> 0 < LED_COUNT \<and>
   (\<exists>s'. led_breathe_up 0 0 boot = Inr s' \<and>
         last (duties (new_events boot s')) = 1020 \<and>
         duty_active s' LED1_CH = 1020)"
  using led_breathe_up_last_duty [of 0 boot]
  by (auto simp: LED_COUNT_3 leds_def)

section \<open>The brightness primitive\<close>

text \<open>
  C10. For every LED index \<open>i\<close> below 3 and every duty \<open>d\<close>, \<^verbatim>\<open>led_set_brightness(i, d)\<close>
  returns, names only the channel of LED \<open>i\<close> in its two driver calls, puts \<open>d\<close> (as an
  unsigned 32-bit value) in force there, and leaves the stored and the active duty of every
  other channel, in particular of the channel of every other LED, as they were.
\<close>

theorem led_set_brightness_frame:
  "0 \<le> i \<Longrightarrow> i < LED_COUNT \<Longrightarrow>
   \<exists>s'. led_set_brightness i d s = Inr s' \<and>
        channels_touched (new_events s s') = [channel (leds ! nat i), channel (leds ! nat i)] \<and>
        duty_active s' (channel (leds ! nat i)) = d mod 2 ^ 32 \<and>
        (\<forall>c. c \<noteq> channel (leds ! nat i) \<longrightarrow>
           duty_active s' c = duty_active s c \<and> duty_pending s' c = duty_pending s c) \<and>
        (\<forall>j. 0 \<le> j \<and> j < LED_COUNT \<and> j \<noteq> i \<longrightarrow>
           duty_active s' (channel (leds ! nat j)) = duty_active s (channel (leds ! nat j)))"
proof -
  assume i: "0 \<le> i" "i < LED_COUNT"
  then have i3: "i < 3" by (simp add: LED_COUNT_3)
  have run: "led_set_brightness i d s = Inr (set_result i d s)"
    using i(1) i3 by (rule led_set_brightness_eq)
  have touched: "channels_touched (new_events s (set_result i d s)) =
      [channel (leds ! nat i), channel (leds ! nat i)]"
    by (simp add: new_events_append [OF trace_set_result] set_events_def)
  have other: "channel (leds ! nat j) \<noteq> channel (leds ! nat i)"
    if "0 \<le> j \<and> j < LED_COUNT \<and> j \<noteq> i" for j
    using that i(1) i3 by (simp add: leds_channels_distinct LED_COUNT_3)
  show ?thesis
    using run touched other
    by (simp add: duty_active_set_result duty_pending_set_result)
qed

theorem led_set_brightness_frame_witness:
  "(0::int) \<le> 1 \<and> 1 < LED_COUNT \<and>
   (\<exists>s'. led_set_brightness 1 512 boot = Inr s' \<and>
         channels_touched (new_events boot s') = [LED2_CH, LED2_CH] \<and>
         duty_active s' LED2_CH = 512 \<and>
         duty_active s' LED1_CH = duty_active boot LED1_CH \<and>
         duty_active s' LED3_CH = duty_active boot LED3_CH)"
proof -
  have "LED1_CH \<noteq> LED2_CH" "LED3_CH \<noteq> LED2_CH"
    by (simp_all add: LED1_CH_def LED2_CH_def LED3_CH_def)
  then show ?thesis
    using led_set_brightness_frame [of 1 512 boot]
    by (auto simp: LED_COUNT_3 leds_def)
qed

section \<open>The patterns\<close>

text \<open>
  C4. With three LEDs, one call of \<^verbatim>\<open>pattern_knight_rider\<close> from any state is the log
  message followed by \<^verbatim>\<open>led_breathe\<close> on 0, 1, 2 and then 1: it returns, and the indices
  \<^verbatim>\<open>led_breathe\<close> was called with are exactly \<open>[0, 1, 2, 1]\<close>, in this order.
\<close>

theorem pattern_knight_rider_order:
  "LED_COUNT = 3 \<and>
   pattern_knight_rider s =
     run_list [\<lambda>s. Inr (ESP_LOGI MsgKnightRider s),
               led_breathe 0, led_breathe 1, led_breathe 2, led_breathe 1] s \<and>
   (\<exists>s'. pattern_knight_rider s = Inr s' \<and> breathe_calls (new_events s s') = [0, 1, 2, 1])"
proof -
  have "breathe_calls (new_events s (knight_result s)) = [0, 1, 2, 1]"
    by (simp add: new_events_append [OF trace_knight_result] breathe_calls_append
        breathe_calls_breathe_events)
  then show ?thesis
    by (simp add: pattern_knight_rider_Inr LED_COUNT_3 led_breathe_Inr knight_result_def)
qed

theorem pattern_knight_rider_order_witness:
  "LED_COUNT = 3 \<and>
   pattern_knight_rider boot =
     run_list [\<lambda>s. Inr (ESP_LOGI MsgKnightRider s),
               led_breathe 0, led_breathe 1, led_breathe 2, led_breathe 1] boot \<and>
   (\<exists>s'. pattern_knight_rider boot = Inr s' \<and>
         breathe_calls (new_events boot s') = [0, 1, 2, 1])"
  by (rule pattern_knight_rider_order [of boot])

text \<open>
  C5. One call of \<^verbatim>\<open>pattern_binary_counter\<close> from any state is the log message followed,
  for each count from 0 to \<open>2 ^ 3 - 1\<close> in order, by one step for each LED index 0, 1, 2 in
  order and a delay; the step for index \<open>i\<close> is \<^verbatim>\<open>led_breathe(i)\<close> when bit \<open>i\<close> of the
  count is set and \<^verbatim>\<open>led_set_brightness(i, 0)\<close> otherwise. The call returns. The pass for
  count 5 is \<^verbatim>\<open>led_breathe(0)\<close>, \<^verbatim>\<open>led_set_brightness(1, 0)\<close>, \<^verbatim>\<open>led_breathe(2)\<close>:
  it breathes LEDs 0 and 2 and leaves LED 1 at duty 0.
\<close>

theorem pattern_binary_counter_passes:
  "pattern_binary_counter s =
     run_list ((\<lambda>s. Inr (ESP_LOGI MsgBinaryCounter s)) #
       concat (map (\<lambda>count.
         map (\<lambda>i. if bit count (nat i) then led_breathe i else led_set_brightness i 0) [0, 1, 2] @
         [\<lambda>s. Inr (vTaskDelay BLINK_DELAY s)]) [0..2 ^ nat LED_COUNT - 1])) s \<and>
   (\<exists>s'. pattern_binary_counter s = Inr s' \<and>
         breathe_calls (new_events s s') = [0, 1, 0, 1, 2, 0, 2, 1, 2, 0, 1, 2]) \<and>
   binary_counter_leds 5 0 s = run_list [led_breathe 0, led_set_brightness 1 0, led_breathe 2] s \<and>
   (\<exists>s5. binary_counter_leds 5 0 s = Inr s5 \<and>
         breathe_calls (new_events s s5) = [0, 2] \<and>
         duty_active s5 (channel (leds ! 1)) = 0)"
proof -
  have counts: "[0..2 ^ nat LED_COUNT - 1] = [0, 1, 2, 3, 4, 5, 6, 7]"
    by (simp add: LED_COUNT_3 upto_0_7)
  have unrolled: "pattern_binary_counter s =
     run_list ((\<lambda>s. Inr (ESP_LOGI MsgBinaryCounter s)) #
       concat (map (\<lambda>count.
         map (\<lambda>i. if bit count (nat i) then led_breathe i else led_set_brightness i 0) [0, 1, 2] @
         [\<lambda>s. Inr (vTaskDelay BLINK_DELAY s)]) [0..2 ^ nat LED_COUNT - 1])) s"
    unfolding counts
    by (simp only: run_list.simps sum.case run_list_concat [of _ counter_pass, OF run_list_pass]
        pattern_binary_counter_Inr counter_result_def)
  have calls: "breathe_calls (new_events s (counter_result s)) =
      [0, 1, 0, 1, 2, 0, 2, 1, 2, 0, 1, 2]"
    by (simp only: new_events_append [OF trace_counter_result] breathe_calls.simps
        breathe_calls_counter)
  have pass5: "binary_counter_leds 5 0 s =
      run_list [led_breathe 0, led_set_brightness 1 0, led_breathe 2] s"
    by (simp add: binary_counter_leds_Inr led_breathe_Inr led_set_brightness_eq led_action_def)
  have calls5: "breathe_calls (new_events s (foldl (led_action 5) s [0, 1, 2])) = [0, 2]"
    by (simp only: new_events_append [OF trace_foldl_led_action] breathe_calls_pass_5)
  have ex: "\<exists>s'. pattern_binary_counter s = Inr s' \<and>
      breathe_calls (new_events s s') = [0, 1, 0, 1, 2, 0, 2, 1, 2, 0, 1, 2]"
    using pattern_binary_counter_Inr calls by blast
  have ex5: "\<exists>s5. binary_counter_leds 5 0 s = Inr s5 \<and>
      breathe_calls (new_events s s5) = [0, 2] \<and> duty_active s5 (channel (leds ! 1)) = 0"
    using binary_counter_leds_Inr calls5 duty_active_pass_5 by blast
  show ?thesis
    by (rule conjI [OF unrolled conjI [OF ex conjI [OF pass5 ex5]]])
qed

theorem pattern_binary_counter_passes_witness:
  "pattern_binary_counter boot =
     run_list ((\<lambda>s. Inr (ESP_LOGI MsgBinaryCounter s)) #
       concat (map (\<lambda>count.
         map (\<lambda>i. if bit count (nat i) then led_breathe i else led_set_brightness i 0) [0, 1, 2] @
         [\<lambda>s. Inr (vTaskDelay BLINK_DELAY s)]) [0..2 ^ nat LED_COUNT - 1])) boot \<and>
   (\<exists>s'. pattern_binary_counter boot = Inr s' \<and>
         breathe_calls (new_events boot s') = [0, 1, 0, 1, 2, 0, 2, 1, 2, 0, 1, 2]) \<and>
   binary_counter_leds 5 0 boot =
     run_list [led_breathe 0, led_set_brightness 1 0, led_breathe 2] boot \<and>
   (\<exists>s5. binary_counter_leds 5 0 boot = Inr s5 \<and>
         breathe_calls (new_events boot s5) = [0, 2] \<and>
         duty_active s5 (channel (leds ! 1)) = 0)"
  by (rule pattern_binary_counter_passes [of boot])

text \<open>
  C7. For every generator and seed, \<^verbatim>\<open>pattern_random\<close> returns after calling
  \<^verbatim>\<open>led_breathe\<close> exactly 6 times, every index it calls it with is at least 0 and below
  \<^verbatim>\<open>LED_COUNT\<close>, and two runs that start with the same seed, in whatever state the rest
  of the machine is, call it with the same indices in the same order.
\<close>

theorem pattern_random_reproducible:
  "\<exists>s1' s2'.
     pattern_random g (srand seed s1) = Inr s1' \<and>
     pattern_random g (srand seed s2) = Inr s2' \<and>
     length (breathe_calls (new_events (srand seed s1) s1')) = 6 \<and>
     list_all (\<lambda>i. 0 \<le> i \<and> i < LED_COUNT) (breathe_calls (new_events (srand seed s1) s1')) \<and>
     breathe_calls (new_events (srand seed s1) s1') =
       breathe_calls (new_events (srand seed s2) s2')"
proof -
  have t: "trace (random_result g 6 (ESP_LOGI MsgRandom (srand seed s))) =
      trace (srand seed s) @ Log MsgRandom # random_events g 6 seed" for s
    by (simp add: trace_random_result trace_ESP_LOGI rand_state_ESP_LOGI srand_def)
  have calls: "breathe_calls (new_events (srand seed s)
      (random_result g 6 (ESP_LOGI MsgRandom (srand seed s)))) = random_indices g 6 seed" for s
    by (simp only: new_events_append [OF t] breathe_calls.simps breathe_calls_random_events)
  show ?thesis
    using pattern_random_Inr [of g "srand seed s1"] pattern_random_Inr [of g "srand seed s2"]
      calls [of s1] calls [of s2] length_random_indices [of g 6 seed]
      random_indices_range [of g 6 seed]
    by auto
qed

theorem pattern_random_reproducible_witness:
  "\<exists>s1' s2'.
     pattern_random lcg (srand 42 boot) = Inr s1' \<and>
     pattern_random lcg (srand 42 (emit (TaskDelay 7) boot)) = Inr s2' \<and>
     length (breathe_calls (new_events (srand 42 boot) s1')) = 6 \<and>
     list_all (\<lambda>i. 0 \<le> i \<and> i < LED_COUNT)
       (breathe_calls (new_events (srand 42 boot) s1')) \<and>
     breathe_calls (new_events (srand 42 boot) s1') =
       breathe_calls (new_events (srand 42 (emit (TaskDelay 7) boot)) s2')"
  by (rule pattern_random_reproducible [of lcg 42 boot "emit (TaskDelay 7) boot"])

section \<open>The scheduler task\<close>

text \<open>
  C6. One pass of the loop of \<^verbatim>\<open>led_pattern_task\<close>, from any state and with any
  generator, is \<^verbatim>\<open>pattern_knight_rider\<close>, then \<^verbatim>\<open>pattern_binary_counter\<close> from the
  state the first left, then \<^verbatim>\<open>pattern_random\<close> from the state the second left. All
  three return. They call \<^verbatim>\<open>led_breathe\<close> 4 times, 12 times (the number of set bits among
  bits 0 to 2 of the counts 0 to 7) and 6 times, 22 times in the whole pass.
\<close>

theorem led_pattern_task_breathe_count:
  "\<exists>s1 s2 s3.
     pattern_knight_rider s = Inr s1 \<and>
     pattern_binary_counter s1 = Inr s2 \<and>
     pattern_random g s2 = Inr s3 \<and>
     led_pattern_task g 1 s = Inr s3 \<and>
     length (breathe_calls (new_events s s1)) = 4 \<and>
     length (breathe_calls (new_events s1 s2)) = 12 \<and>
     sum_list (map (\<lambda>c. length (filter (bit c) [0, 1, 2])) [0, 1, 2, 3, 4, 5, 6, 7 :: int]) = 12 \<and>
     length (breathe_calls (new_events s2 s3)) = 6 \<and>
     length (breathe_calls (new_events s s3)) = 22"
proof -
  let ?s1 = "knight_result s"
  let ?s2 = "counter_result ?s1"
  let ?s3 = "random_result g 6 (ESP_LOGI MsgRandom ?s2)"
  have r1: "pattern_knight_rider s = Inr ?s1"
    by (rule pattern_knight_rider_Inr)
  have r2: "pattern_binary_counter ?s1 = Inr ?s2"
    by (rule pattern_binary_counter_Inr)
  have r3: "pattern_random g ?s2 = Inr ?s3"
    by (rule pattern_random_Inr)
  have r: "led_pattern_task g 1 s = Inr ?s3"
    using led_pattern_cycle_Inr [of g s] by (simp add: cycle_result_def)
  have n1: "length (breathe_calls (new_events s ?s1)) = 4"
    by (simp only: new_events_append [OF trace_knight_result] breathe_calls_knight) simp
  have n2: "length (breathe_calls (new_events ?s1 ?s2)) = 12"
    by (simp only: new_events_append [OF trace_counter_result] breathe_calls.simps
        breathe_calls_counter) simp
  have t3: "trace ?s3 = trace ?s2 @ Log MsgRandom # random_events g 6 (rand_state ?s2)"
    by (simp add: trace_random_result trace_ESP_LOGI rand_state_ESP_LOGI)
  have n3: "length (breathe_calls (new_events ?s2 ?s3)) = 6"
    by (simp only: new_events_append [OF t3] breathe_calls.simps breathe_calls_random_events
        length_random_indices)
  have t: "trace ?s3 = trace s @ cycle_events g (rand_state s)"
    using trace_cycle_result [of g s] by (simp only: cycle_result_def)
  have n: "length (breathe_calls (new_events s ?s3)) = 22"
    by (simp only: new_events_append [OF t] breathe_calls_cycle_events length_append
        length_random_indices) simp
  show ?thesis
    using r1 r2 r3 r n1 n2 popcounts n3 n by blast
qed

theorem led_pattern_task_breathe_count_witness:
  "\<exists>s1 s2 s3.
     pattern_knight_rider boot = Inr s1 \<and>
     pattern_binary_counter s1 = Inr s2 \<and>
     pattern_random lcg s2 = Inr s3 \<and>
     led_pattern_task lcg 1 boot = Inr s3 \<and>
     length (breathe_calls (new_events boot s1)) = 4 \<and>
     length (breathe_calls (new_events s1 s2)) = 12 \<and>
     sum_list (map (\<lambda>c. length (filter (bit c) [0, 1, 2])) [0, 1, 2, 3, 4, 5, 6, 7 :: int]) = 12 \<and>
     length (breathe_calls (new_events s2 s3)) = 6 \<and>
     length (breathe_calls (new_events boot s3)) = 22"
  by (rule led_pattern_task_breathe_count [of boot lcg])

text \<open>
  C8. After any number of passes of the loop of \<^verbatim>\<open>led_pattern_task\<close>, from any state and
  with any generator, the task has met no error, and every call it made is in range: each
  \<^verbatim>\<open>led_set_brightness\<close> and \<^verbatim>\<open>led_breathe\<close> had an LED index from 0 to
  \<^verbatim>\<open>LED_COUNT - 1\<close>, each duty was between 0 and \<open>2 ^ 10 - 1\<close>, and each driver call named
  the channel of one of the three LEDs.
\<close>

theorem led_pattern_task_calls_in_range:
  "max_duty = 2 ^ 10 - 1 \<and>
   (\<exists>s'. led_pattern_task g n s = Inr s' \<and> list_all call_ok (new_events s s'))"
proof -
  obtain s' es where run: "led_pattern_task g n s = Inr s'"
    "trace s' = trace s @ es" "list_all call_ok es"
    using led_pattern_task_ok by blast
  then have "list_all call_ok (new_events s s')"
    by (simp add: new_events_append)
  then show ?thesis using run(1) by (auto simp: max_duty_1023)
qed

theorem led_pattern_task_calls_in_range_witness:
  "max_duty = 2 ^ 10 - 1 \<and>
   (\<exists>s'. led_pattern_task lcg 2 boot = Inr s' \<and> list_all call_ok (new_events boot s'))"
  by (rule led_pattern_task_calls_in_range [of lcg 2 boot])

section \<open>Initialisation\<close>

text \<open>
  C9. \<^verbatim>\<open>led_init\<close> aborts exactly when the hardware rejects the timer configuration or
  the configuration of one of the three channels; the error is then an abort with the
  rejected call's code, no state is returned, and \<^verbatim>\<open>app_main\<close> ends with the same abort
  before any pattern runs. When \<^verbatim>\<open>led_init\<close> returns, it has made one timer configuration
  and one channel configuration for each LED, all accepted, and every LED's channel has duty
  0. Each channel configuration names the LED's own channel and pin, the one timer, and
  duty 0.
\<close>

theorem led_init_aborts_iff_rejected:
  "((\<exists>e. led_init hwt hwc s = Inl e) =
      (hwt ledc_timer \<noteq> ESP_OK \<or> hwc (ledc_channel 0) \<noteq> ESP_OK \<or>
       hwc (ledc_channel 1) \<noteq> ESP_OK \<or> hwc (ledc_channel 2) \<noteq> ESP_OK)) \<and>
   (\<forall>e. led_init hwt hwc s = Inl e \<longrightarrow>
      (\<exists>rc. e = Abort rc \<and> rc \<noteq> ESP_OK) \<and> app_main hwt hwc entropy g n s = Inl e) \<and>
   (\<forall>s'. led_init hwt hwc s = Inr s' \<longrightarrow>
      new_events s s' =
        [TimerConfig ledc_timer ESP_OK,
         ChannelConfig (ledc_channel 0) ESP_OK,
         ChannelConfig (ledc_channel 1) ESP_OK,
         ChannelConfig (ledc_channel 2) ESP_OK,
         Log (MsgInitialized LED_COUNT)] \<and>
      (\<forall>i. 0 \<le> i \<and> i < LED_COUNT \<longrightarrow>
         duty_active s' (channel (leds ! nat i)) = 0 \<and>
         duty_pending s' (channel (leds ! nat i)) = 0)) \<and>
   (\<forall>i. 0 \<le> i \<and> i < LED_COUNT \<longrightarrow>
      ch_channel (ledc_channel i) = channel (leds ! nat i) \<and>
      gpio_num (ledc_channel i) = gpio (leds ! nat i) \<and>
      timer_sel (ledc_channel i) = timer_num ledc_timer \<and>
      ch_duty (ledc_channel i) = 0)"
proof (cases "hwt ledc_timer = ESP_OK \<and> hwc (ledc_channel 0) = ESP_OK \<and>
    hwc (ledc_channel 1) = ESP_OK \<and> hwc (ledc_channel 2) = ESP_OK")
  case True
  have run: "led_init hwt hwc s = Inr (init_result hwt hwc s)"
    using True by (simp add: led_init_cases)
  have ev: "new_events s (init_result hwt hwc s) =
      [TimerConfig ledc_timer ESP_OK,
       ChannelConfig (ledc_channel 0) ESP_OK,
       ChannelConfig (ledc_channel 1) ESP_OK,
       ChannelConfig (ledc_channel 2) ESP_OK,
       Log (MsgInitialized LED_COUNT)]"
    using True by (simp add: new_events_append [OF trace_init_result])
  have duty: "duty_active (init_result hwt hwc s) (channel (leds ! nat i)) = 0 \<and>
      duty_pending (init_result hwt hwc s) (channel (leds ! nat i)) = 0"
    if "0 \<le> i \<and> i < LED_COUNT" for i
    using True that by (simp add: duty_init_result LED_COUNT_3)
  show ?thesis
    using True run ev duty by (simp add: ledc_channel_def ledc_timer_def)
next
  case False
  have run: "led_init hwt hwc t = Inl (Abort (init_error hwt hwc))" for t
    using False by (simp add: led_init_cases)
  have "app_main hwt hwc entropy g n s = Inl (Abort (init_error hwt hwc))"
    by (simp add: app_main_def run)
  then show ?thesis
    using False run init_error_not_OK [of hwt hwc]
    by (auto simp: ledc_channel_def ledc_timer_def)
qed

theorem led_init_aborts_iff_rejected_witness:
  "(\<exists>e. led_init (\<lambda>c. ESP_OK) (\<lambda>c. if gpio_num c = GPIO_NUM_4 then 258 else ESP_OK) boot = Inl e) \<and>
   (\<exists>s'. led_init (\<lambda>c. ESP_OK) (\<lambda>c. ESP_OK) boot = Inr s' \<and>
         duty_active s' LED1_CH = 0 \<and> duty_active s' LED2_CH = 0 \<and> duty_active s' LED3_CH = 0)"
proof -
  have "\<exists>e. led_init (\<lambda>c. ESP_OK) (\<lambda>c. if gpio_num c = GPIO_NUM_4 then 258 else ESP_OK) boot = Inl e"
    using led_init_aborts_iff_rejected
      [of "\<lambda>c. ESP_OK" "\<lambda>c. if gpio_num c = GPIO_NUM_4 then 258 else ESP_OK" boot 0 "\<lambda>x. (x, x)" 0]
    by (simp add: ledc_channel_def leds_def LED2_GPIO_def ESP_OK_def)
  moreover have "\<exists>s'. led_init (\<lambda>c. ESP_OK) (\<lambda>c. ESP_OK) boot = Inr s' \<and>
         duty_active s' LED1_CH = 0 \<and> duty_active s' LED2_CH = 0 \<and> duty_active s' LED3_CH = 0"
  proof -
    note th = led_init_aborts_iff_rejected [of "\<lambda>c. ESP_OK" "\<lambda>c. ESP_OK" boot 0 "\<lambda>x. (x, x)" 0]
    from th have "\<not> (\<exists>e. led_init (\<lambda>c. ESP_OK) (\<lambda>c. ESP_OK) boot = Inl e)" by simp
    then obtain s' where s': "led_init (\<lambda>c. ESP_OK) (\<lambda>c. ESP_OK) boot = Inr s'"
      by (cases "led_init (\<lambda>c. ESP_OK) (\<lambda>c. ESP_OK) boot") auto
    from th s' have d: "\<forall>i. 0 \<le> i \<and> i < LED_COUNT \<longrightarrow> duty_active s' (channel (leds ! nat i)) = 0"
      by simp
    from d [rule_format, of 0] d [rule_format, of 1] d [rule_format, of 2]
    have "duty_active s' LED1_CH = 0 \<and> duty_active s' LED2_CH = 0 \<and> duty_active s' LED3_CH = 0"
      by (simp add: LED_COUNT_3 leds_def)
    with s' show ?thesis by blast
  qed
  ultimately show ?thesis by blast
qed

end
